theory Spec2Isabelle
  imports Main "HOL-Library.Word"
begin

section \<open>Status codes\<close>

text \<open>\<open>X_STATUS\<close> is a 32-bit unsigned value.\<close>

type_synonym X_STATUS = "32 word"

text \<open>
  Modelled from the spec: the four status constants are declared in a header that is not
  part of \<open>emulator.cc\<close>; they are the fixed vocabulary "success, generic failure,
  feature-not-implemented, file-not-found" and carry the NT status values. \<open>Setup\<close> and
  \<open>CompleteLaunch\<close> themselves treat the value \<open>0\<close> as success
  (\<open>if (result) return result;\<close>, \<open>result == 0\<close>).
\<close>

definition X_STATUS_SUCCESS :: X_STATUS where
  "X_STATUS_SUCCESS = 0x00000000"

definition X_STATUS_UNSUCCESSFUL :: X_STATUS where
  "X_STATUS_UNSUCCESSFUL = 0xC0000001"

definition X_STATUS_NOT_IMPLEMENTED :: X_STATUS where
  "X_STATUS_NOT_IMPLEMENTED = 0xC0000002"

definition X_STATUS_NO_SUCH_FILE :: X_STATUS where
  "X_STATUS_NO_SUCH_FILE = 0xC000000F"

text \<open>The implicit C++ conversion of a \<open>bool\<close> to \<open>X_STATUS\<close> (\<open>return false;\<close>).\<close>

definition bool_to_status :: "bool \<Rightarrow> X_STATUS" where
  "bool_to_status b = (if b then 1 else 0)"

section \<open>Emulator::Setup\<close>

text \<open>
  An owned subsystem pointer (the fields \<open>memory_\<close>, \<open>processor_\<close>, ... of the class, named here
  without the trailing underscore) is \<open>None\<close> while null. A subsystem that has been constructed
  but whose own \<open>Initialize\<close>/\<open>Setup\<close> has not succeeded is \<open>Constructed\<close>; one whose
  initialisation succeeded (or that has no initialisation step of its own: export resolver,
  filesystem, kernel state, debugger session) is \<open>Initialized\<close>.
\<close>

datatype subsystem = Constructed | Initialized

record emulator =
  memory :: "subsystem option"
  export_resolver :: "subsystem option"
  debugger :: "subsystem option"
  processor :: "subsystem option"
  audio_system :: "subsystem option"
  graphics_system :: "subsystem option"
  input_system :: "subsystem option"
  file_system :: "subsystem option"
  kernel_state :: "subsystem option"
  input_drivers :: nat
  kernel_modules :: "string list"
  exception_handler_installed :: bool
  profiler_window_set :: bool

definition new_emulator :: emulator where
  "new_emulator = \<lparr> memory = None, export_resolver = None, debugger = None,
     processor = None, audio_system = None, graphics_system = None,
     input_system = None, file_system = None, kernel_state = None,
     input_drivers = 0, kernel_modules = [], exception_handler_installed = False,
     profiler_window_set = False \<rparr>"

text \<open>
  What the collaborators of \<open>Setup\<close> answer. \<open>audio_system_factory = None\<close> is the empty
  \<open>std::function\<close>; \<open>Some b\<close> is a factory whose result is non-null iff \<open>b\<close>.
  \<open>graphics_system_factory\<close> tells whether the (unconditionally invoked) factory returns a
  non-null system, \<open>input_driver_factory\<close> how many drivers the optional factory yields.
\<close>

record setup_env =
  memory_Initialize :: bool
  FLAGS_debug :: bool
  processor_Setup :: bool
  audio_system_factory :: "bool option"
  graphics_system_factory :: bool
  input_driver_factory :: "nat option"
  input_system_Setup :: X_STATUS
  graphics_system_Setup :: X_STATUS
  audio_system_Setup :: X_STATUS

text \<open>
  \<open>Setup\<close>, statement by statement. The clock and thread-affinity calls at the top change
  nothing the emulator owns and are left out. \<open>std::make_unique\<close> never yields null, so the
  \<open>!input_system\<close> test cannot fire. The input system and the kernel state are new
  objects: the drivers and the kernel modules of earlier ones are gone with them.
\<close>

definition Setup :: "setup_env \<Rightarrow> emulator \<Rightarrow> X_STATUS \<times> emulator" where
  "Setup env e0 =
    (let e1 = e0\<lparr>memory := Some Constructed\<rparr> in
     if \<not> memory_Initialize env then (bool_to_status False, e1)
     else
     let e2 = e1\<lparr>memory := Some Initialized, export_resolver := Some Initialized\<rparr>;
         e3 = (if FLAGS_debug env then e2\<lparr>debugger := Some Initialized\<rparr> else e2);
         e4 = e3\<lparr>processor := Some Constructed\<rparr> in
     if \<not> processor_Setup env then (X_STATUS_UNSUCCESSFUL, e4)
     else
     let e5 = e4\<lparr>processor := Some Initialized\<rparr>;
         e6 = (case audio_system_factory env of
                 None \<Rightarrow> e5
               | Some made \<Rightarrow> e5\<lparr>audio_system := (if made then Some Constructed else None)\<rparr>) in
     if audio_system_factory env = Some False then (X_STATUS_NOT_IMPLEMENTED, e6)
     else
     let e7 = e6\<lparr>graphics_system :=
                   (if graphics_system_factory env then Some Constructed else None)\<rparr> in
     if \<not> graphics_system_factory env then (X_STATUS_NOT_IMPLEMENTED, e7)
     else
     let e8 = e7\<lparr>input_system := Some Constructed, input_drivers := 0\<rparr>;
         e9 = (case input_driver_factory env of
                 None \<Rightarrow> e8
               | Some n \<Rightarrow> e8\<lparr>input_drivers := input_drivers e8 + n\<rparr>);
         result1 = input_system_Setup env in
     if result1 \<noteq> 0 then (result1, e9)
     else
     let e10 = e9\<lparr>input_system := Some Initialized,
                   file_system := Some Initialized,
                   kernel_state := Some Initialized,
                   kernel_modules := []\<rparr>;
         result2 = graphics_system_Setup env in
     if result2 \<noteq> 0 then (result2, e10)
     else
     let e11 = e10\<lparr>graphics_system := Some Initialized\<rparr>;
         result3 = (if audio_system e11 \<noteq> None then audio_system_Setup env else result2) in
     if audio_system e11 \<noteq> None \<and> result3 \<noteq> 0 then (result3, e11)
     else
     let e12 = (if audio_system e11 \<noteq> None
                then e11\<lparr>audio_system := Some Initialized\<rparr> else e11);
         e13 = e12\<lparr>kernel_modules := kernel_modules e12 @ [''xboxkrnl.exe'', ''xam.xex''],
                    exception_handler_installed := True,
                    profiler_window_set := True\<rparr>
     in (result3, e13))"

text \<open>The invariant the data model asks of a successful \<open>Setup\<close>.\<close>

definition all_subsystems_ready :: "setup_env \<Rightarrow> emulator \<Rightarrow> bool" where
  "all_subsystems_ready env e \<longleftrightarrow>
     memory e = Some Initialized \<and> export_resolver e = Some Initialized \<and>
     processor e = Some Initialized \<and> graphics_system e = Some Initialized \<and>
     input_system e = Some Initialized \<and> file_system e = Some Initialized \<and>
     kernel_state e = Some Initialized \<and>
     (case audio_system_factory env of
        None \<Rightarrow> True
      | Some made \<Rightarrow> audio_system e = Some Initialized)"

section \<open>Emulator::ExceptionCallback\<close>

text \<open>
  A guest thread object of the kernel's object table: its identity (the pointer compared by
  \<open>current_thread == thread.get()\<close>) and its \<open>can_debugger_suspend()\<close> capability.
\<close>

record xthread =
  thread_handle :: nat
  can_debugger_suspend :: bool

text \<open>
  What \<open>ExceptionCallback\<close> does to its surroundings, in program order:
  \<open>global_critical_region::AcquireDirect()\<close>, \<open>thread->Suspend(nullptr)\<close> on the thread
  of the given identity, the \<open>PostSynchronous\<close> round-trip that shows the message box,
  \<open>assert_true(c)\<close> with the value of its condition, and \<open>assert_always()\<close>.
\<close>

datatype crash_event =
    AcquireGlobalLock
  | Suspend nat
  | ShowCrashDialog
  | AssertTrue bool
  | AssertAlways

text \<open>
  The emulator's own debugger as seen by the callback: \<open>is_attached()\<close> and the answer
  \<open>OnUnhandledException(ex)\<close> would give for this exception.
\<close>

record debugger_view =
  is_attached :: bool
  OnUnhandledException :: bool

text \<open>
  What the callback reads; \<open>debugger_ptr\<close> is \<open>debugger()\<close>, null unless \<open>Setup\<close> ran
  with the debug flag. The integer types are declared outside \<open>emulator.cc\<close>:
  \<open>base_address()\<close> and \<open>total_size()\<close> of the code cache are 32-bit unsigned, \<open>ex->pc()\<close>
  is 64-bit unsigned.
\<close>

record exception_env =
  debugger_ptr :: "debugger_view option"
  IsDebuggerAttached :: bool
  base_address :: "32 word"
  total_size :: "32 word"
  threads :: "xthread list"
  current_thread :: xthread

text \<open>
  The guest code region of the spec, \<open>[code_base, code_base + code_size)\<close>, as an interval
  of numbers.
\<close>

definition in_guest_code_region :: "exception_env \<Rightarrow> 64 word \<Rightarrow> bool" where
  "in_guest_code_region env pc \<longleftrightarrow>
     unat (base_address env) \<le> unat pc \<and>
     unat pc < unat (base_address env) + unat (total_size env)"

text \<open>The \<open>for (auto thread : threads)\<close> loop with its two \<open>continue\<close>s.\<close>

fun suspend_others :: "xthread \<Rightarrow> xthread list \<Rightarrow> crash_event list" where
  "suspend_others cur [] = []"
| "suspend_others cur (thread # rest) =
     (if \<not> can_debugger_suspend thread then suspend_others cur rest
      else if thread_handle cur = thread_handle thread then suspend_others cur rest
      else Suspend (thread_handle thread) # suspend_others cur rest)"

text \<open>
  The callback returns its \<open>bool\<close> together with what it did. \<open>code_end\<close> is a 32-bit sum
  and wraps; the two comparisons with \<open>ex->pc()\<close> are made at 64 bits, the 32-bit operand
  zero-extended. The two assertions are recorded where they stand; after the faulting
  thread's own \<open>Suspend\<close> and \<open>assert_always()\<close> the code returns \<open>false\<close>.
\<close>

definition ExceptionCallback :: "exception_env \<Rightarrow> 64 word \<Rightarrow> bool \<times> crash_event list" where
  "ExceptionCallback env pc =
    (let code_base = base_address env;
         code_end = code_base + total_size env in
     case debugger_ptr env of
       None \<Rightarrow> (False, [])
     | Some dbg \<Rightarrow>
         if \<not> is_attached dbg \<and> IsDebuggerAttached env then (False, [])
         else if is_attached dbg then (OnUnhandledException dbg, [])
         else if \<not> (pc \<ge> ucast code_base \<and> pc < ucast code_end) then (False, [])
         else (False,
               [AcquireGlobalLock]
               @ suspend_others (current_thread env) (threads env)
               @ [ShowCrashDialog]
               @ [AssertTrue (can_debugger_suspend (current_thread env))]
               @ [Suspend (thread_handle (current_thread env))]
               @ [AssertAlways]))"

section \<open>Launch resolution\<close>

subsection \<open>Strings\<close>

text \<open>
  Paths are lists of characters. \<open>std::wstring::npos\<close> is the largest \<open>size_t\<close>;
  \<open>find_last_of\<close> returns the last index holding the character, or \<open>npos\<close>.
\<close>

definition bslash :: char where
  "bslash = CHR 0x5C"

definition npos :: nat where
  "npos = 18446744073709551615"

fun find_last_from :: "char \<Rightarrow> string \<Rightarrow> nat \<Rightarrow> nat" where
  "find_last_from c s 0 = npos"
| "find_last_from c s (Suc i) = (if s ! i = c then i else find_last_from c s i)"

definition find_last_of :: "char \<Rightarrow> string \<Rightarrow> nat" where
  "find_last_of c s = find_last_from c s (length s)"

text \<open>\<open>path.substr(pos)\<close> for \<open>pos \<le> size()\<close>, the only way the code calls it.\<close>

definition substr :: "string \<Rightarrow> nat \<Rightarrow> string" where
  "substr s pos = drop pos s"

text \<open>\<open>xe::to_string\<close> narrows a wide string; the characters stay the same.\<close>

definition to_string :: "string \<Rightarrow> string" where
  "to_string s = s"

subsection \<open>Devices, calls and collaborators\<close>

datatype device =
    HostPathDevice string string bool
  | DiscImageDevice string string
  | StfsContainerDevice string string

fun mount_point :: "device \<Rightarrow> string" where
  "mount_point (HostPathDevice m p ro) = m"
| "mount_point (DiscImageDevice m p) = m"
| "mount_point (StfsContainerDevice m p) = m"

text \<open>
  The calls a launch function makes before it hands over to \<open>CompleteLaunch\<close>, in program
  order; \<open>InitializeDevice\<close> and \<open>RegisterDevice\<close> carry the answer they got.
\<close>

datatype fs_event =
    InitializeDevice device bool
  | RegisterDevice device bool
  | RegisterSymbolicLink string string
  | LogError string
  | FatalError string
  | CallCompleteLaunch string string

text \<open>
  The loader data shared with the xam module; the rest of the guest world is the
  extension of the record.
\<close>

record loader_data =
  launch_path :: string

text \<open>
  The collaborators of the launch functions. \<open>kPathSeparator\<close>, \<open>find_base_path\<close> and
  \<open>find_name_from_path\<close> are declared outside \<open>emulator.cc\<close> and are taken as they come.
  \<open>LaunchModule\<close> runs a module: it returns an integer and may change the guest world,
  in particular write \<open>launch_path\<close>.
\<close>

record 'w launch_env =
  kPathSeparator :: char
  find_base_path :: "string \<Rightarrow> string"
  find_name_from_path :: "string \<Rightarrow> string"
  device_Initialize :: "device \<Rightarrow> bool"
  fs_RegisterDevice :: "device \<Rightarrow> bool"
  LaunchModule :: "string \<Rightarrow> 'w \<Rightarrow> int \<times> 'w"

subsection \<open>Emulator::CompleteLaunch\<close>

text \<open>
  One entry of the log of \<open>LaunchModule\<close> calls: the module launched, the value the
  chaining field held when the call was made, and the integer the call returned.
\<close>

record launch_call =
  called_module :: string
  field_at_entry :: string
  returned :: int

text \<open>
  The \<open>while (next_module != "")\<close> loop. A module may request another one for ever, so
  the loop is a partial function: \<open>None\<close> is a run that never leaves the loop. Besides
  \<open>result\<close> and the world, the loop carries the log of the \<open>LaunchModule\<close> calls made
  so far.
\<close>

partial_function (option) launch_loop ::
  "('a loader_data_scheme) launch_env \<Rightarrow> string \<Rightarrow> int \<Rightarrow> 'a loader_data_scheme
     \<Rightarrow> launch_call list
     \<Rightarrow> (int \<times> 'a loader_data_scheme \<times> launch_call list) option" where
  "launch_loop env next_module result w calls =
     (if next_module = [] then Some (result, w, calls)
      else
        let launched = LaunchModule env next_module w;
            result' = fst launched;
            w1 = snd launched;
            next_module' = launch_path w1;
            w2 = w1\<lparr>launch_path := []\<rparr>
        in launch_loop env next_module' result' w2
             (calls @ [\<lparr>called_module = next_module, field_at_entry = launch_path w,
                        returned = result'\<rparr>]))"

definition CompleteLaunch ::
  "('a loader_data_scheme) launch_env \<Rightarrow> string \<Rightarrow> string \<Rightarrow> 'a loader_data_scheme
     \<Rightarrow> (X_STATUS \<times> 'a loader_data_scheme \<times> launch_call list) option" where
  "CompleteLaunch env path module_path w =
     (case launch_loop env module_path 0 w [] of
        None \<Rightarrow> None
      | Some (result, w', calls) \<Rightarrow>
          if result = 0 then Some (X_STATUS_SUCCESS, w', calls)
          else Some (X_STATUS_UNSUCCESSFUL, w', calls))"

text \<open>
  The scenario "the modules issue \<open>n\<close> redirect requests": launching \<open>m\<close> leaves a
  request behind exactly \<open>n\<close> times in a row, each requested module being launched in the
  world whose field has been blanked, and the module after that leaves none.
\<close>

fun redirect_chain ::
  "('a loader_data_scheme) launch_env \<Rightarrow> nat \<Rightarrow> string \<Rightarrow> 'a loader_data_scheme \<Rightarrow> bool" where
  "redirect_chain env 0 m w = (launch_path (snd (LaunchModule env m w)) = [])"
| "redirect_chain env (Suc n) m w =
     (let w1 = snd (LaunchModule env m w)
      in launch_path w1 \<noteq> [] \<and>
         redirect_chain env n (launch_path w1) (w1\<lparr>launch_path := []\<rparr>))"

text \<open>
  What such a chain is made of, read off \<open>LaunchModule\<close> alone: the integer the last
  launch of the chain returns, the guest world it leaves behind once the field has been
  blanked, and the launches in order.
\<close>

fun last_launch_result ::
  "('a loader_data_scheme) launch_env \<Rightarrow> nat \<Rightarrow> string \<Rightarrow> 'a loader_data_scheme \<Rightarrow> int" where
  "last_launch_result env 0 m w = fst (LaunchModule env m w)"
| "last_launch_result env (Suc n) m w =
     (let w1 = snd (LaunchModule env m w)
      in last_launch_result env n (launch_path w1) (w1\<lparr>launch_path := []\<rparr>))"

fun chain_world ::
  "('a loader_data_scheme) launch_env \<Rightarrow> nat \<Rightarrow> string \<Rightarrow> 'a loader_data_scheme
     \<Rightarrow> 'a loader_data_scheme" where
  "chain_world env 0 m w = (snd (LaunchModule env m w))\<lparr>launch_path := []\<rparr>"
| "chain_world env (Suc n) m w =
     (let w1 = snd (LaunchModule env m w)
      in chain_world env n (launch_path w1) (w1\<lparr>launch_path := []\<rparr>))"

fun chain_calls ::
  "('a loader_data_scheme) launch_env \<Rightarrow> nat \<Rightarrow> string \<Rightarrow> 'a loader_data_scheme
     \<Rightarrow> launch_call list" where
  "chain_calls env 0 m w =
     [\<lparr>called_module = m, field_at_entry = launch_path w,
       returned = fst (LaunchModule env m w)\<rparr>]"
| "chain_calls env (Suc n) m w =
     (let w1 = snd (LaunchModule env m w)
      in \<lparr>called_module = m, field_at_entry = launch_path w,
          returned = fst (LaunchModule env m w)\<rparr>
         # chain_calls env n (launch_path w1) (w1\<lparr>launch_path := []\<rparr>))"

subsection \<open>The three launch variants and Emulator::LaunchPath\<close>

text \<open>
  A launch function yields the calls it made before its \<open>return\<close> statement, in order,
  and the outcome of that statement: the status, the guest world and the \<open>LaunchModule\<close>
  calls of the module-load chain, or \<open>None\<close> when the chain never ends. The calls made
  before \<open>CompleteLaunch\<close> have happened whatever the chain does.
\<close>

type_synonym 'w launch_result =
  "fs_event list \<times> (X_STATUS \<times> 'w \<times> launch_call list) option"

definition harddisk_mount_path :: string where
  "harddisk_mount_path =
     [bslash] @ ''Device'' @ [bslash] @ ''Harddisk0'' @ [bslash] @ ''Partition0''"

definition cdrom_mount_path :: string where
  "cdrom_mount_path = [bslash] @ ''Device'' @ [bslash] @ ''Cdrom0''"

definition default_xex :: string where
  "default_xex = ''game:'' @ [bslash] @ ''default.xex''"

definition LaunchXexFile ::
  "('a loader_data_scheme) launch_env \<Rightarrow> string \<Rightarrow> 'a loader_data_scheme
     \<Rightarrow> ('a loader_data_scheme) launch_result" where
  "LaunchXexFile env path w =
    (let mount_path = harddisk_mount_path;
         parent_path = find_base_path env path;
         device = HostPathDevice mount_path parent_path True in
     if \<not> device_Initialize env device then
       ([InitializeDevice device False,
        LogError ''Unable to scan host path''],
        Some (X_STATUS_NO_SUCH_FILE, w, []))
     else if \<not> fs_RegisterDevice env device then
       ([InitializeDevice device True, RegisterDevice device False,
        LogError ''Unable to register host path''],
        Some (X_STATUS_NO_SUCH_FILE, w, []))
     else
       let file_name = find_name_from_path env path;
           fs_path = ''game:'' @ [bslash] @ to_string file_name
       in ([InitializeDevice device True, RegisterDevice device True,
            RegisterSymbolicLink ''game:'' mount_path,
            RegisterSymbolicLink ''d:'' mount_path,
            CallCompleteLaunch path fs_path],
           CompleteLaunch env path fs_path w))"

definition LaunchDiscImage ::
  "('a loader_data_scheme) launch_env \<Rightarrow> string \<Rightarrow> 'a loader_data_scheme
     \<Rightarrow> ('a loader_data_scheme) launch_result" where
  "LaunchDiscImage env path w =
    (let mount_path = cdrom_mount_path;
         device = DiscImageDevice mount_path path in
     if \<not> device_Initialize env device then
       ([InitializeDevice device False,
        FatalError ''Unable to mount disc image; file not found or corrupt.''],
        Some (X_STATUS_NO_SUCH_FILE, w, []))
     else if \<not> fs_RegisterDevice env device then
       ([InitializeDevice device True, RegisterDevice device False,
        FatalError ''Unable to register disc image.''],
        Some (X_STATUS_NO_SUCH_FILE, w, []))
     else
       ([InitializeDevice device True, RegisterDevice device True,
         RegisterSymbolicLink ''game:'' mount_path,
         RegisterSymbolicLink ''d:'' mount_path,
         CallCompleteLaunch path default_xex],
        CompleteLaunch env path default_xex w))"

definition LaunchStfsContainer ::
  "('a loader_data_scheme) launch_env \<Rightarrow> string \<Rightarrow> 'a loader_data_scheme
     \<Rightarrow> ('a loader_data_scheme) launch_result" where
  "LaunchStfsContainer env path w =
    (let mount_path = cdrom_mount_path;
         device = StfsContainerDevice mount_path path in
     if \<not> device_Initialize env device then
       ([InitializeDevice device False,
        FatalError ''Unable to mount STFS container; file not found or corrupt.''],
        Some (X_STATUS_NO_SUCH_FILE, w, []))
     else if \<not> fs_RegisterDevice env device then
       ([InitializeDevice device True, RegisterDevice device False,
        FatalError ''Unable to register STFS container.''],
        Some (X_STATUS_NO_SUCH_FILE, w, []))
     else
       ([InitializeDevice device True, RegisterDevice device True,
         RegisterSymbolicLink ''game:'' mount_path,
         RegisterSymbolicLink ''d:'' mount_path,
         CallCompleteLaunch path default_xex],
        CompleteLaunch env path default_xex w))"

text \<open>The branch \<open>LaunchPath\<close> takes: its \<open>if\<close> chain on the two \<open>find_last_of\<close> results.\<close>

datatype launch_branch = StfsContainerBranch | XexFileBranch | DiscImageBranch

definition LaunchPath_branch :: "char \<Rightarrow> string \<Rightarrow> launch_branch" where
  "LaunchPath_branch sep path =
    (let last_slash = find_last_of sep path;
         last_dot0 = find_last_of CHR ''.'' path;
         last_dot = (if last_dot0 < last_slash then npos else last_dot0) in
     if last_dot = npos then StfsContainerBranch
     else if substr path last_dot = ''.xex'' \<or> substr path last_dot = ''.elf''
       then XexFileBranch
     else DiscImageBranch)"

definition LaunchPath ::
  "('a loader_data_scheme) launch_env \<Rightarrow> string \<Rightarrow> 'a loader_data_scheme
     \<Rightarrow> ('a loader_data_scheme) launch_result" where
  "LaunchPath env path w =
    (case LaunchPath_branch (kPathSeparator env) path of
       StfsContainerBranch \<Rightarrow> LaunchStfsContainer env path w
     | XexFileBranch \<Rightarrow> LaunchXexFile env path w
     | DiscImageBranch \<Rightarrow> LaunchDiscImage env path w)"

text \<open>
  Modelled from the spec: \<open>xe::find_name_from_path\<close> and \<open>xe::find_base_path\<close> live
  outside \<open>emulator.cc\<close>. "The file's own name" is what follows the last separator, the
  parent directory what precedes it. They serve as the concrete collaborators of the
  examples.
\<close>

definition name_after_sep :: "char \<Rightarrow> string \<Rightarrow> string" where
  "name_after_sep sep path = rev (takeWhile (\<lambda>c. c \<noteq> sep) (rev path))"

definition base_before_sep :: "char \<Rightarrow> string \<Rightarrow> string" where
  "base_before_sep sep path = rev (drop 1 (dropWhile (\<lambda>c. c \<noteq> sep) (rev path)))"

subsection \<open>Reading the log of calls\<close>

text \<open>The calls of a mount that succeeded, for a device and the module path handed on.\<close>

definition successful_mount :: "device \<Rightarrow> string \<Rightarrow> string \<Rightarrow> fs_event list" where
  "successful_mount device path target =
     [InitializeDevice device True, RegisterDevice device True,
      RegisterSymbolicLink ''game:'' (mount_point device),
      RegisterSymbolicLink ''d:'' (mount_point device),
      CallCompleteLaunch path target]"

text \<open>The fatal notices, the logged errors and the \<open>CompleteLaunch\<close> calls of a log.\<close>

fun fatal_notices :: "fs_event list \<Rightarrow> string list" where
  "fatal_notices [] = []"
| "fatal_notices (FatalError msg # evs) = msg # fatal_notices evs"
| "fatal_notices (e # evs) = fatal_notices evs"

fun logged_errors :: "fs_event list \<Rightarrow> string list" where
  "logged_errors [] = []"
| "logged_errors (LogError msg # evs) = msg # logged_errors evs"
| "logged_errors (e # evs) = logged_errors evs"

fun launch_requests :: "fs_event list \<Rightarrow> (string \<times> string) list" where
  "launch_requests [] = []"
| "launch_requests (CallCompleteLaunch p m # evs) = (p, m) # launch_requests evs"
| "launch_requests (e # evs) = launch_requests evs"

section \<open>Concrete collaborators for the examples\<close>

text \<open>
  A guest world with an empty chaining field, and collaborators on a platform whose
  separator is \<open>/\<close>: every device mounts, \<open>default.xex\<close> fails with 1 and asks for
  \<open>patched.xex\<close>, every other module returns 0 and leaves the world alone.
\<close>

definition example_world :: loader_data where
  "example_world = \<lparr>launch_path = []\<rparr>"

definition patched_xex :: string where
  "patched_xex = ''game:'' @ [bslash] @ ''patched.xex''"

definition example_env :: "loader_data launch_env" where
  "example_env = \<lparr>
     kPathSeparator = CHR ''/'',
     find_base_path = base_before_sep CHR ''/'',
     find_name_from_path = name_after_sep CHR ''/'',
     device_Initialize = (\<lambda>d. True),
     fs_RegisterDevice = (\<lambda>d. True),
     LaunchModule = (\<lambda>m w. if m = default_xex
                             then (1, w\<lparr>launch_path := patched_xex\<rparr>)
                             else (0, w)) \<rparr>"

definition foo_xex :: string where
  "foo_xex = ''game:'' @ [bslash] @ ''foo.xex''"

text \<open>
  Two more sets of collaborators: one where \<open>default.xex\<close> succeeds and asks for
  \<open>patched.xex\<close> while every other module fails with 5, and one where every module asks
  for itself again.
\<close>

definition failing_last_env :: "loader_data launch_env" where
  "failing_last_env = example_env\<lparr>
     LaunchModule := (\<lambda>m w. if m = default_xex
                              then (0, w\<lparr>launch_path := patched_xex\<rparr>)
                              else (5, w)) \<rparr>"

definition looping_env :: "loader_data launch_env" where
  "looping_env = example_env\<lparr> LaunchModule := (\<lambda>m w. (0, w\<lparr>launch_path := m\<rparr>)) \<rparr>"

text \<open>
  An emulator started with the debug flag whose debugger is not attached, no foreign
  debugger, four thread objects (the third a host thread), the second one faulting.
\<close>

definition example_threads :: "xthread list" where
  "example_threads =
     [\<lparr>thread_handle = 1, can_debugger_suspend = True\<rparr>,
      \<lparr>thread_handle = 2, can_debugger_suspend = True\<rparr>,
      \<lparr>thread_handle = 3, can_debugger_suspend = False\<rparr>,
      \<lparr>thread_handle = 4, can_debugger_suspend = True\<rparr>]"

definition example_exception_env :: exception_env where
  "example_exception_env = \<lparr>
     debugger_ptr = Some \<lparr>is_attached = False, OnUnhandledException = True\<rparr>,
     IsDebuggerAttached = False,
     base_address = 0x80000000,
     total_size = 0x0FFFFFFF,
     threads = example_threads,
     current_thread = \<lparr>thread_handle = 2, can_debugger_suspend = True\<rparr> \<rparr>"

section \<open>Results about Setup\<close>

lemma Setup_success_after_memory:
  assumes "memory_Initialize env" and "fst (Setup env new_emulator) = X_STATUS_SUCCESS"
  shows "all_subsystems_ready env (snd (Setup env new_emulator))"
  using assms
  by (cases "audio_system_factory env"; cases "input_driver_factory env")
     (auto simp: Setup_def Let_def all_subsystems_ready_def new_emulator_def
         X_STATUS_SUCCESS_def X_STATUS_UNSUCCESSFUL_def X_STATUS_NOT_IMPLEMENTED_def
         split: if_splits)

text \<open>
  C3 (the code departs from the claim): when \<open>memory_->Initialize()\<close> fails, \<open>Setup\<close>
  executes \<open>return false;\<close>. Converted to \<open>X_STATUS\<close> this is the value \<open>0\<close>, which is
  the success status and differs from the generic unsuccessful status that the sibling
  failure path of the processor returns.
\<close>

theorem Setup_memory_failure_status:
  "fst (Setup (env\<lparr>memory_Initialize := False\<rparr>) e) = X_STATUS_SUCCESS \<and>
   fst (Setup (env\<lparr>memory_Initialize := False\<rparr>) e) \<noteq> X_STATUS_UNSUCCESSFUL \<and>
   fst (Setup (env\<lparr>memory_Initialize := True, processor_Setup := False\<rparr>) e)
     = X_STATUS_UNSUCCESSFUL"
  by (simp add: Setup_def Let_def bool_to_status_def X_STATUS_SUCCESS_def
      X_STATUS_UNSUCCESSFUL_def)

text \<open>
  C4 (the code departs from the claim): on the same path \<open>Setup\<close> hands back the success
  status while Memory is constructed but not initialized and every other owned subsystem
  is still null, so the invariant fails for a fresh emulator.
\<close>

theorem Setup_success_without_subsystems:
  "Setup (env\<lparr>memory_Initialize := False\<rparr>) new_emulator
     = (X_STATUS_SUCCESS, new_emulator\<lparr>memory := Some Constructed\<rparr>) \<and>
   \<not> all_subsystems_ready (env\<lparr>memory_Initialize := False\<rparr>)
       (snd (Setup (env\<lparr>memory_Initialize := False\<rparr>) new_emulator))"
  by (simp add: Setup_def Let_def bool_to_status_def X_STATUS_SUCCESS_def
      all_subsystems_ready_def new_emulator_def)

section \<open>Results about the exception callback\<close>

lemma suspend_others_filter:
  "suspend_others cur ts =
     map (\<lambda>t. Suspend (thread_handle t))
       (filter (\<lambda>t. can_debugger_suspend t \<and> thread_handle t \<noteq> thread_handle cur) ts)"
  by (induction ts) auto

text \<open>
  The test of line 312 against the region of the spec: a program counter that passes the
  test lies in the interval, and one in the interval passes the test when the 32-bit sum
  does not wrap.
\<close>

lemma unat_ucast_32_64: "unat (ucast (x :: 32 word) :: 64 word) = unat x"
proof -
  have "unat x < 2 ^ 32" using unsigned_less [of x] by simp
  then have "unat x < 2 ^ 64" by simp
  then show ?thesis
    by (simp add: unsigned_ucast_eq take_bit_nat_eq_self_iff)
qed

lemma code_test_in_region:
  fixes pc :: "64 word" and base size :: "32 word"
  assumes "pc \<ge> ucast base" and "pc < ucast (base + size)"
  shows "unat base \<le> unat pc \<and> unat pc < unat base + unat size"
proof -
  have up: "\<And>x :: 32 word. unat (ucast x :: 64 word) = unat x"
    by (rule unat_ucast_32_64)
  from assms(1) have "unat base \<le> unat pc"
    by (simp add: word_le_nat_alt up)
  moreover from assms(2) have "unat pc < unat (base + size)"
    by (simp add: word_less_nat_alt up)
  moreover have "unat (base + size) \<le> unat base + unat size"
    by (simp add: unat_word_ariths)
  ultimately show ?thesis by linarith
qed

lemma region_in_code_test:
  fixes pc :: "64 word" and base size :: "32 word"
  assumes "unat base \<le> unat pc" and "unat pc < unat base + unat size"
    and "unat base + unat size < 2 ^ 32"
  shows "pc \<ge> ucast base \<and> pc < ucast (base + size)"
proof -
  have up: "\<And>x :: 32 word. unat (ucast x :: 64 word) = unat x"
    by (rule unat_ucast_32_64)
  have "unat (base + size) = unat base + unat size"
    using assms(3) by (simp add: unat_word_ariths)
  then show ?thesis using assms(1,2)
    by (simp add: word_le_nat_alt word_less_nat_alt up)
qed

text \<open>
  The containment path, reached when a Debugger object exists and is detached, no foreign
  debugger is attached, the program counter is in the region and the region does not wrap:
  under the global lock, exactly the threads with the debugger-suspendable capability
  other than the faulting one are suspended, in table order; one dialog round-trip
  follows; the faulting thread is asserted to be suspendable and suspended last.
\<close>

lemma ExceptionCallback_containment:
  assumes "debugger_ptr env = Some dbg" and "\<not> is_attached dbg"
    and "\<not> IsDebuggerAttached env"
    and "in_guest_code_region env pc"
    and "unat (base_address env) + unat (total_size env) < 2 ^ 32"
  shows "ExceptionCallback env pc =
     (False,
      [AcquireGlobalLock]
      @ map (\<lambda>t. Suspend (thread_handle t))
          (filter (\<lambda>t. can_debugger_suspend t \<and>
                        thread_handle t \<noteq> thread_handle (current_thread env)) (threads env))
      @ [ShowCrashDialog, AssertTrue (can_debugger_suspend (current_thread env)),
         Suspend (thread_handle (current_thread env)), AssertAlways])"
proof -
  from assms(4,5) have "pc \<ge> ucast (base_address env) \<and>
      pc < ucast (base_address env + total_size env)"
    unfolding in_guest_code_region_def by (intro region_in_code_test) simp_all
  with assms(1-3) show ?thesis
    by (simp add: ExceptionCallback_def Let_def suspend_others_filter)
qed

text \<open>
  C1 (the code departs from the claim): without the debug flag \<open>debugger()\<close> is null, so
  the emulator's own debugger is not attached. With no foreign debugger attached and a
  fault inside the guest code region the claim has the callback enter guest-crash
  containment, but the first test, \<open>!debugger() || ...\<close>, sends every such exception into
  the branch commented "If Xenia's debugger isn't attached but another one is": the
  callback returns \<open>false\<close>, suspends no thread and shows no dialog. The same fault with a
  detached Debugger object is contained.
\<close>

theorem ExceptionCallback_null_debugger_not_contained:
  "ExceptionCallback (env\<lparr>debugger_ptr := None\<rparr>) pc = (False, []) \<and>
   in_guest_code_region (example_exception_env\<lparr>debugger_ptr := None\<rparr>) 0x80000010 \<and>
   IsDebuggerAttached (example_exception_env\<lparr>debugger_ptr := None\<rparr>) = False \<and>
   ExceptionCallback (example_exception_env\<lparr>debugger_ptr := None\<rparr>) 0x80000010 = (False, []) \<and>
   ExceptionCallback example_exception_env 0x80000010 =
     (False, [AcquireGlobalLock, Suspend 1, Suspend 4, ShowCrashDialog, AssertTrue True,
              Suspend 2, AssertAlways])"
proof -
  have a: "\<And>env pc. ExceptionCallback (env\<lparr>debugger_ptr := None\<rparr>) pc = (False, [])"
    by (simp add: ExceptionCallback_def)
  have b: "in_guest_code_region (example_exception_env\<lparr>debugger_ptr := None\<rparr>) 0x80000010"
    by (simp add: in_guest_code_region_def example_exception_env_def)
  have c: "IsDebuggerAttached (example_exception_env\<lparr>debugger_ptr := None\<rparr>) = False"
    by (simp add: example_exception_env_def)
  have d: "ExceptionCallback example_exception_env 0x80000010 =
     (False, [AcquireGlobalLock, Suspend 1, Suspend 4, ShowCrashDialog, AssertTrue True,
              Suspend 2, AssertAlways])"
    using ExceptionCallback_containment
      [of example_exception_env "\<lparr>is_attached = False, OnUnhandledException = True\<rparr>"
          "0x80000010"]
    by (simp add: example_exception_env_def example_threads_def in_guest_code_region_def)
  show ?thesis using a b c d by simp
qed

text \<open>
  C7: for every host exception whose program counter lies outside the guest code region,
  when neither the emulator's own debugger nor a foreign one is attached, the callback
  returns \<open>false\<close> and makes no call at all, so no thread's suspension state changes.
\<close>

theorem ExceptionCallback_outside_guest_code:
  assumes "\<not> in_guest_code_region env pc"
    and "case debugger_ptr env of None \<Rightarrow> True | Some dbg \<Rightarrow> \<not> is_attached dbg"
    and "\<not> IsDebuggerAttached env"
  shows "ExceptionCallback env pc = (False, [])"
proof (cases "debugger_ptr env")
  case None
  then show ?thesis by (simp add: ExceptionCallback_def)
next
  case (Some dbg)
  have "\<not> (pc \<ge> ucast (base_address env) \<and> pc < ucast (base_address env + total_size env))"
    using assms(1) code_test_in_region [of "base_address env" pc "total_size env"]
    unfolding in_guest_code_region_def by blast
  with Some assms(2,3) show ?thesis
    by (simp add: ExceptionCallback_def Let_def)
qed

theorem ExceptionCallback_outside_guest_code_witness:
  "ExceptionCallback example_exception_env 0x1000 = (False, []) \<and>
   ExceptionCallback example_exception_env 0x8FFFFFFF = (False, [])"
  using ExceptionCallback_outside_guest_code [of example_exception_env "0x1000"]
    ExceptionCallback_outside_guest_code [of example_exception_env "0x8FFFFFFF"]
  by (simp add: example_exception_env_def in_guest_code_region_def)

text \<open>A region whose 32-bit end wraps is empty for the test of line 312.\<close>

lemma wrapped_region_is_empty:
  "ExceptionCallback
     (example_exception_env\<lparr>base_address := 0xF0000000, total_size := 0x20000000\<rparr>)
     0xF0000010 = (False, [])"
  by (simp add: ExceptionCallback_def example_exception_env_def)

section \<open>Results about the module-load chain\<close>

lemma launch_loop_stop: "launch_loop env [] r w cs = Some (r, w, cs)"
  by (subst launch_loop.simps) simp

lemma launch_loop_step:
  "m \<noteq> [] \<Longrightarrow>
   launch_loop env m r w cs =
     launch_loop env (launch_path (snd (LaunchModule env m w)))
       (fst (LaunchModule env m w))
       ((snd (LaunchModule env m w))\<lparr>launch_path := []\<rparr>)
       (cs @ [\<lparr>called_module = m, field_at_entry = launch_path w,
                returned = fst (LaunchModule env m w)\<rparr>])"
  by (subst launch_loop.simps) (simp add: Let_def)

lemma launch_loop_chain:
  "redirect_chain env n m w \<Longrightarrow> m \<noteq> [] \<Longrightarrow>
   \<exists>w' rest.
     launch_loop env m r w cs =
       Some (returned (last (\<lparr>called_module = m, field_at_entry = launch_path w,
                               returned = fst (LaunchModule env m w)\<rparr> # rest)),
             w',
             cs @ \<lparr>called_module = m, field_at_entry = launch_path w,
                    returned = fst (LaunchModule env m w)\<rparr> # rest) \<and>
     length rest = n \<and> launch_path w' = [] \<and>
     list_all (\<lambda>c. field_at_entry c = []) rest"
proof (induction n arbitrary: m w r cs)
  case 0
  then show ?case
    by (simp add: launch_loop_step launch_loop_stop)
next
  case (Suc n)
  let ?w1 = "snd (LaunchModule env m w)"
  let ?c = "\<lparr>called_module = m, field_at_entry = launch_path w,
              returned = fst (LaunchModule env m w)\<rparr>"
  from Suc.prems have next_ne: "launch_path ?w1 \<noteq> []"
    and chain: "redirect_chain env n (launch_path ?w1) (?w1\<lparr>launch_path := []\<rparr>)"
    by (simp_all add: Let_def)
  from Suc.IH [OF chain next_ne, of "fst (LaunchModule env m w)" "cs @ [?c]"]
  obtain w' rest where
    run: "launch_loop env (launch_path ?w1) (fst (LaunchModule env m w))
            (?w1\<lparr>launch_path := []\<rparr>) (cs @ [?c]) =
          Some (returned (last (\<lparr>called_module = launch_path ?w1,
                   field_at_entry = launch_path (?w1\<lparr>launch_path := []\<rparr>),
                   returned = fst (LaunchModule env (launch_path ?w1) (?w1\<lparr>launch_path := []\<rparr>))\<rparr> # rest)),
                w',
                (cs @ [?c]) @ \<lparr>called_module = launch_path ?w1,
                   field_at_entry = launch_path (?w1\<lparr>launch_path := []\<rparr>),
                   returned = fst (LaunchModule env (launch_path ?w1) (?w1\<lparr>launch_path := []\<rparr>))\<rparr> # rest)"
    and len: "length rest = n" and cleared: "launch_path w' = []"
    and seen: "list_all (\<lambda>c. field_at_entry c = []) rest"
    by blast
  let ?c' = "\<lparr>called_module = launch_path ?w1,
                   field_at_entry = launch_path (?w1\<lparr>launch_path := []\<rparr>),
                   returned = fst (LaunchModule env (launch_path ?w1) (?w1\<lparr>launch_path := []\<rparr>))\<rparr>"
  have "launch_loop env m r w cs = Some (returned (last (?c # ?c' # rest)), w', cs @ ?c # ?c' # rest)"
    using run Suc.prems(2) by (simp add: launch_loop_step)
  moreover have "length (?c' # rest) = Suc n" using len by simp
  moreover have "list_all (\<lambda>c. field_at_entry c = []) (?c' # rest)" using seen by simp
  ultimately show ?case using cleared by blast
qed

text \<open>
  Whenever the loop returns, the result it returns is the one of the last call of its log;
  and a run that returns from a non-empty module path is a redirect chain of some length,
  so the chains below are all the runs that return.
\<close>

lemma launch_loop_last:
  assumes "launch_loop env m r w cs = Some out"
  shows "(cs \<noteq> [] \<longrightarrow> r = returned (last cs)) \<longrightarrow>
         (snd (snd out) \<noteq> [] \<longrightarrow> fst out = returned (last (snd (snd out))))"
proof (rule launch_loop.raw_induct
    [where P = "\<lambda>env m r w cs out. (cs \<noteq> [] \<longrightarrow> r = returned (last cs)) \<longrightarrow>
         (snd (snd out) \<noteq> [] \<longrightarrow> fst out = returned (last (snd (snd out))))",
     OF _ assms])
  fix loop :: "'a loader_data_scheme launch_env \<Rightarrow> string \<Rightarrow> int \<Rightarrow> 'a loader_data_scheme
     \<Rightarrow> launch_call list \<Rightarrow> (int \<times> 'a loader_data_scheme \<times> launch_call list) option"
  fix env m r w cs out
  assume IH: "\<And>env m r w cs out. loop env m r w cs = Some out \<Longrightarrow>
     (cs \<noteq> [] \<longrightarrow> r = returned (last cs)) \<longrightarrow>
         (snd (snd out) \<noteq> [] \<longrightarrow> fst out = returned (last (snd (snd out))))"
  assume body: "(if m = [] then Some (r, w, cs)
      else let launched = LaunchModule env m w;
               result' = fst launched; w1 = snd launched;
               next_module' = launch_path w1; w2 = w1\<lparr>launch_path := []\<rparr>
           in loop env next_module' result' w2
               (cs @ [\<lparr>called_module = m, field_at_entry = launch_path w,
                        returned = result'\<rparr>])) = Some out"
  show "(cs \<noteq> [] \<longrightarrow> r = returned (last cs)) \<longrightarrow>
         (snd (snd out) \<noteq> [] \<longrightarrow> fst out = returned (last (snd (snd out))))"
  proof (cases "m = []")
    case True
    with body show ?thesis by auto
  next
    case False
    with body have "loop env (launch_path (snd (LaunchModule env m w)))
       (fst (LaunchModule env m w))
       ((snd (LaunchModule env m w))\<lparr>launch_path := []\<rparr>)
       (cs @ [\<lparr>called_module = m, field_at_entry = launch_path w,
                returned = fst (LaunchModule env m w)\<rparr>]) = Some out"
      by (simp add: Let_def)
    from IH [OF this] show ?thesis by simp
  qed
qed

lemma returning_loop_is_chain:
  assumes "launch_loop env m r w cs = Some out"
  shows "m \<noteq> [] \<longrightarrow> (\<exists>n. redirect_chain env n m w)"
proof (rule launch_loop.raw_induct
    [where P = "\<lambda>env m r w cs out. m \<noteq> [] \<longrightarrow> (\<exists>n. redirect_chain env n m w)",
     OF _ assms])
  fix loop :: "'a loader_data_scheme launch_env \<Rightarrow> string \<Rightarrow> int \<Rightarrow> 'a loader_data_scheme
     \<Rightarrow> launch_call list \<Rightarrow> (int \<times> 'a loader_data_scheme \<times> launch_call list) option"
  fix env m r w cs out
  assume IH: "\<And>env m r w cs out. loop env m r w cs = Some out \<Longrightarrow>
     m \<noteq> [] \<longrightarrow> (\<exists>n. redirect_chain env n m w)"
  assume body: "(if m = [] then Some (r, w, cs)
      else let launched = LaunchModule env m w;
               result' = fst launched; w1 = snd launched;
               next_module' = launch_path w1; w2 = w1\<lparr>launch_path := []\<rparr>
           in loop env next_module' result' w2
               (cs @ [\<lparr>called_module = m, field_at_entry = launch_path w,
                        returned = result'\<rparr>])) = Some out"
  show "m \<noteq> [] \<longrightarrow> (\<exists>n. redirect_chain env n m w)"
  proof
    assume ne: "m \<noteq> []"
    let ?w1 = "snd (LaunchModule env m w)"
    from ne body have "loop env (launch_path ?w1) (fst (LaunchModule env m w))
       (?w1\<lparr>launch_path := []\<rparr>)
       (cs @ [\<lparr>called_module = m, field_at_entry = launch_path w,
                returned = fst (LaunchModule env m w)\<rparr>]) = Some out"
      by (simp add: Let_def)
    from IH [OF this]
    have rest: "launch_path ?w1 \<noteq> [] \<longrightarrow>
       (\<exists>n. redirect_chain env n (launch_path ?w1) (?w1\<lparr>launch_path := []\<rparr>))" .
    show "\<exists>n. redirect_chain env n m w"
    proof (cases "launch_path ?w1 = []")
      case True
      then have "redirect_chain env 0 m w" by simp
      then show ?thesis ..
    next
      case False
      with rest obtain n where
        "redirect_chain env n (launch_path ?w1) (?w1\<lparr>launch_path := []\<rparr>)" by blast
      with False have "redirect_chain env (Suc n) m w" by (simp add: Let_def)
      then show ?thesis ..
    qed
  qed
qed

lemma CompleteLaunch_chain:
  assumes "m \<noteq> []" and "redirect_chain env n m w"
  shows "\<exists>w' rest.
     CompleteLaunch env path m w =
       Some (if returned (last (\<lparr>called_module = m, field_at_entry = launch_path w,
                               returned = fst (LaunchModule env m w)\<rparr> # rest)) = 0
             then X_STATUS_SUCCESS else X_STATUS_UNSUCCESSFUL,
             w',
             \<lparr>called_module = m, field_at_entry = launch_path w,
                    returned = fst (LaunchModule env m w)\<rparr> # rest) \<and>
     length rest = n \<and> launch_path w' = [] \<and>
     list_all (\<lambda>c. field_at_entry c = []) rest"
proof -
  from launch_loop_chain [OF assms(2) assms(1), of 0 "[]"]
  obtain w' rest where
    run: "launch_loop env m 0 w [] =
       Some (returned (last (\<lparr>called_module = m, field_at_entry = launch_path w,
                               returned = fst (LaunchModule env m w)\<rparr> # rest)),
             w',
             [] @ \<lparr>called_module = m, field_at_entry = launch_path w,
                    returned = fst (LaunchModule env m w)\<rparr> # rest)"
    and rest: "length rest = n" "launch_path w' = []"
       "list_all (\<lambda>c. field_at_entry c = []) rest"
    by blast
  from run have "CompleteLaunch env path m w =
       Some (if returned (last (\<lparr>called_module = m, field_at_entry = launch_path w,
                               returned = fst (LaunchModule env m w)\<rparr> # rest)) = 0
             then X_STATUS_SUCCESS else X_STATUS_UNSUCCESSFUL,
             w',
             \<lparr>called_module = m, field_at_entry = launch_path w,
                    returned = fst (LaunchModule env m w)\<rparr> # rest)"
    by (simp add: CompleteLaunch_def)
  with rest show ?thesis by blast
qed

lemma launch_loop_chain_exact:
  "redirect_chain env n m w \<Longrightarrow> m \<noteq> [] \<Longrightarrow>
   launch_loop env m r w cs =
     Some (last_launch_result env n m w, chain_world env n m w, cs @ chain_calls env n m w)"
proof (induction n arbitrary: m w r cs)
  case 0
  then show ?case
    by (simp add: launch_loop_step launch_loop_stop)
next
  case (Suc n)
  let ?w1 = "snd (LaunchModule env m w)"
  from Suc.prems have next_ne: "launch_path ?w1 \<noteq> []"
    and chain: "redirect_chain env n (launch_path ?w1) (?w1\<lparr>launch_path := []\<rparr>)"
    by (simp_all add: Let_def)
  show ?case
    using Suc.prems(2) Suc.IH [OF chain next_ne]
    by (simp add: launch_loop_step Let_def)
qed

lemma chain_calls_last:
  "returned (last (chain_calls env n m w)) = last_launch_result env n m w \<and>
   length (chain_calls env n m w) = Suc n \<and>
   called_module (hd (chain_calls env n m w)) = m"
proof (induction n arbitrary: m w)
  case 0
  show ?case by simp
next
  case (Suc n)
  have ne: "chain_calls env n m' w' \<noteq> []" for m' w'
    by (cases n) (simp_all add: Let_def)
  show ?case using Suc.IH ne by (simp add: Let_def)
qed

text \<open>
  C5: for every chain of module launches driven by \<open>CompleteLaunch\<close> (a non-empty first
  module path and \<open>n\<close> redirects), the call returns, and its status is the success status
  if the integer that \<open>LaunchModule\<close> returned for the last module of the chain is zero
  and the generic unsuccessful status otherwise; the integers returned for the earlier
  modules play no part. The world and the log it returns are those of the chain.
\<close>

theorem CompleteLaunch_status_from_last_launch:
  assumes "module_path \<noteq> []" and "redirect_chain env n module_path w"
  shows "CompleteLaunch env path module_path w =
     Some (if last_launch_result env n module_path w = 0
           then X_STATUS_SUCCESS else X_STATUS_UNSUCCESSFUL,
           chain_world env n module_path w,
           chain_calls env n module_path w)"
  using launch_loop_chain_exact [OF assms(2) assms(1), of 0 "[]"]
  by (simp add: CompleteLaunch_def)

lemma example_chain: "redirect_chain example_env 1 default_xex example_world"
  by (simp add: example_env_def example_world_def default_xex_def patched_xex_def bslash_def)

lemma failing_last_chain: "redirect_chain failing_last_env 1 default_xex example_world"
  by (simp add: failing_last_env_def example_env_def example_world_def default_xex_def
      patched_xex_def bslash_def)

theorem CompleteLaunch_status_from_last_launch_witness:
  "default_xex \<noteq> [] \<and>
   redirect_chain example_env 1 default_xex example_world \<and>
   last_launch_result example_env 1 default_xex example_world = 0 \<and>
   CompleteLaunch example_env ''/games/game.iso'' default_xex example_world =
     Some (X_STATUS_SUCCESS, example_world,
       [\<lparr>called_module = default_xex, field_at_entry = [], returned = 1\<rparr>,
        \<lparr>called_module = patched_xex, field_at_entry = [], returned = 0\<rparr>]) \<and>
   redirect_chain failing_last_env 1 default_xex example_world \<and>
   last_launch_result failing_last_env 1 default_xex example_world = 5 \<and>
   CompleteLaunch failing_last_env ''/games/game.iso'' default_xex example_world =
     Some (X_STATUS_UNSUCCESSFUL, example_world,
       [\<lparr>called_module = default_xex, field_at_entry = [], returned = 0\<rparr>,
        \<lparr>called_module = patched_xex, field_at_entry = [], returned = 5\<rparr>])"
proof -
  have ne: "default_xex \<noteq> []" by (simp add: default_xex_def)
  have differ: "patched_xex \<noteq> default_xex"
    by (simp add: default_xex_def patched_xex_def)
  have good: "last_launch_result example_env 1 default_xex example_world = 0"
    using differ by (simp add: example_env_def example_world_def)
  have bad: "last_launch_result failing_last_env 1 default_xex example_world = 5"
    using differ by (simp add: failing_last_env_def example_env_def example_world_def)
  have run_good:
    "CompleteLaunch example_env ''/games/game.iso'' default_xex example_world =
     Some (X_STATUS_SUCCESS, example_world,
       [\<lparr>called_module = default_xex, field_at_entry = [], returned = 1\<rparr>,
        \<lparr>called_module = patched_xex, field_at_entry = [], returned = 0\<rparr>])"
    using CompleteLaunch_status_from_last_launch
      [OF ne example_chain, of "''/games/game.iso''"] differ
    by (simp add: example_env_def example_world_def)
  have run_bad:
    "CompleteLaunch failing_last_env ''/games/game.iso'' default_xex example_world =
     Some (X_STATUS_UNSUCCESSFUL, example_world,
       [\<lparr>called_module = default_xex, field_at_entry = [], returned = 0\<rparr>,
        \<lparr>called_module = patched_xex, field_at_entry = [], returned = 5\<rparr>])"
    using CompleteLaunch_status_from_last_launch
      [OF ne failing_last_chain, of "''/games/game.iso''"] differ
    by (simp add: failing_last_env_def example_env_def example_world_def
        X_STATUS_SUCCESS_def X_STATUS_UNSUCCESSFUL_def)
  show ?thesis
    using ne example_chain failing_last_chain good bad run_good run_bad by simp
qed

text \<open>
  C6: the chaining field is blanked after it is read in every iteration: every
  \<open>LaunchModule\<close> call after the first finds it empty, and it is empty when the loop
  ends. For a run of \<open>n\<close> redirect requests the loop ends after \<open>n + 1\<close> iterations, and a
  module that leaves the field empty gives exactly one.
\<close>

theorem CompleteLaunch_iteration_count:
  assumes "module_path \<noteq> []" and "redirect_chain env n module_path w"
  shows "\<exists>st w' calls.
     CompleteLaunch env path module_path w = Some (st, w', calls) \<and>
     length calls = n + 1 \<and>
     list_all (\<lambda>c. field_at_entry c = []) (tl calls) \<and>
     launch_path w' = [] \<and>
     (launch_path (snd (LaunchModule env module_path w)) = [] \<longrightarrow> length calls = 1)"
proof -
  let ?c = "\<lparr>called_module = module_path, field_at_entry = launch_path w,
              returned = fst (LaunchModule env module_path w)\<rparr>"
  from CompleteLaunch_chain [OF assms, of path]
  obtain w' rest where
    run: "CompleteLaunch env path module_path w =
       Some (if returned (last (?c # rest)) = 0
             then X_STATUS_SUCCESS else X_STATUS_UNSUCCESSFUL, w', ?c # rest)"
    and len: "length rest = n" and cleared: "launch_path w' = []"
    and seen: "list_all (\<lambda>c. field_at_entry c = []) rest"
    by blast
  have single: "launch_path (snd (LaunchModule env module_path w)) = [] \<longrightarrow> n = 0"
    using assms(2) by (cases n) (simp_all add: Let_def)
  have "length (?c # rest) = n + 1" using len by simp
  moreover have "list_all (\<lambda>c. field_at_entry c = []) (tl (?c # rest))" using seen by simp
  moreover have "launch_path (snd (LaunchModule env module_path w)) = [] \<longrightarrow>
      length (?c # rest) = 1"
    using single len by simp
  ultimately show ?thesis using run cleared by blast
qed

theorem CompleteLaunch_iteration_count_witness:
  "foo_xex \<noteq> [] \<and> redirect_chain example_env 0 foo_xex example_world \<and>
   CompleteLaunch example_env ''/games/foo.xex'' foo_xex example_world =
     Some (X_STATUS_SUCCESS, example_world,
           [\<lparr>called_module = foo_xex, field_at_entry = [], returned = 0\<rparr>])"
proof -
  have ne: "foo_xex \<noteq> []" by (simp add: foo_xex_def)
  have chain: "redirect_chain example_env 0 foo_xex example_world"
    by (simp add: example_env_def example_world_def foo_xex_def default_xex_def)
  have run: "CompleteLaunch example_env ''/games/foo.xex'' foo_xex example_world =
     Some (X_STATUS_SUCCESS, example_world,
           [\<lparr>called_module = foo_xex, field_at_entry = [], returned = 0\<rparr>])"
    using CompleteLaunch_iteration_count [OF ne chain, of "''/games/foo.xex''"]
    by (simp add: CompleteLaunch_def launch_loop_step launch_loop_stop example_env_def
        example_world_def foo_xex_def default_xex_def bslash_def)
  show ?thesis using ne chain run by simp
qed

text \<open>
  C10: with an empty first module path \<open>CompleteLaunch\<close> makes no \<open>LaunchModule\<close> call,
  leaves the guest world (the chaining field included) as it was, and returns the success
  status.
\<close>

theorem CompleteLaunch_empty_module_path:
  "CompleteLaunch env path [] w = Some (X_STATUS_SUCCESS, w, [])"
  by (simp add: CompleteLaunch_def launch_loop_stop)

text \<open>
  A module that keeps asking for itself: the field is blanked after every launch and
  written again by the next one, and \<open>CompleteLaunch\<close> never returns.
\<close>

lemma looping_env_never_returns:
  assumes "launch_loop env m r w cs = Some out"
  shows "env = looping_env \<longrightarrow> m = []"
proof (rule launch_loop.raw_induct
    [where P = "\<lambda>env m r w cs out. env = looping_env \<longrightarrow> m = []", OF _ assms])
  fix loop :: "loader_data launch_env \<Rightarrow> string \<Rightarrow> int \<Rightarrow> loader_data
     \<Rightarrow> launch_call list \<Rightarrow> (int \<times> loader_data \<times> launch_call list) option"
  fix env m r w cs out
  assume IH: "\<And>env m r w cs out. loop env m r w cs = Some out \<Longrightarrow>
     env = looping_env \<longrightarrow> m = []"
  assume body: "(if m = [] then Some (r, w, cs)
      else let launched = LaunchModule env m w;
               result' = fst launched; w1 = snd launched;
               next_module' = launch_path w1; w2 = w1\<lparr>launch_path := []\<rparr>
           in loop env next_module' result' w2
               (cs @ [\<lparr>called_module = m, field_at_entry = launch_path w,
                        returned = result'\<rparr>])) = Some out"
  show "env = looping_env \<longrightarrow> m = []"
  proof (intro impI, rule ccontr)
    assume env: "env = looping_env" and ne: "m \<noteq> []"
    from ne body have "loop env (launch_path (snd (LaunchModule env m w)))
       (fst (LaunchModule env m w))
       ((snd (LaunchModule env m w))\<lparr>launch_path := []\<rparr>)
       (cs @ [\<lparr>called_module = m, field_at_entry = launch_path w,
                returned = fst (LaunchModule env m w)\<rparr>]) = Some out"
      by (simp add: Let_def)
    from IH [OF this] env have "launch_path (snd (LaunchModule looping_env m w)) = []"
      by simp
    with ne show False by (simp add: looping_env_def)
  qed
qed

lemma CompleteLaunch_looping_env:
  "m \<noteq> [] \<Longrightarrow> CompleteLaunch looping_env path m w = None"
proof -
  assume ne: "m \<noteq> []"
  have "launch_loop looping_env m 0 w [] = None"
  proof (cases "launch_loop looping_env m 0 w []")
    case None
    then show ?thesis .
  next
    case (Some out)
    from looping_env_never_returns [OF this] ne show ?thesis by simp
  qed
  then show ?thesis by (simp add: CompleteLaunch_def)
qed

section \<open>Results about LaunchPath\<close>

lemma find_last_from_absent:
  "\<forall>i<n. s ! i \<noteq> c \<Longrightarrow> find_last_from c s n = npos"
  by (induction n) simp_all

lemma find_last_from_bound:
  "find_last_from c s n = npos \<or> find_last_from c s n < n"
  by (induction n) auto

lemma LaunchPath_branch_no_separator:
  assumes "sep \<notin> set path" and "length path < npos"
  shows "LaunchPath_branch sep path = StfsContainerBranch"
proof -
  have "\<forall>i<length path. path ! i \<noteq> sep" using assms(1) by (metis nth_mem)
  then have slash: "find_last_of sep path = npos"
    by (simp add: find_last_of_def find_last_from_absent)
  have "find_last_of CHR ''.'' path = npos \<or> find_last_of CHR ''.'' path < npos"
    using find_last_from_bound [of "CHR ''.''" path "length path"] assms(2)
    by (auto simp: find_last_of_def)
  then show ?thesis using slash by (auto simp: LaunchPath_branch_def Let_def)
qed

text \<open>
  C2 (the code departs from the claim): the path \<open>game.xex\<close> has a dot and no separator.
  \<open>find_last_of\<close> answers \<open>npos\<close> for the separator, the index of the dot is smaller
  than \<open>npos\<close>, so \<open>last_dot\<close> is reset and the container-image branch is taken, where
  the claim has the bare-module branch; the same name behind a directory takes the
  bare-module branch. This holds for both platform separators, and by
  \<open>LaunchPath_branch_no_separator\<close> for every path without a separator.
\<close>

theorem LaunchPath_bare_file_name_is_container:
  "LaunchPath_branch CHR ''/'' ''game.xex'' = StfsContainerBranch \<and>
   LaunchPath_branch bslash ''game.xex'' = StfsContainerBranch \<and>
   LaunchPath_branch CHR ''/'' ''/games/game.xex'' = XexFileBranch \<and>
   LaunchPath example_env ''game.xex'' example_world =
     (successful_mount (StfsContainerDevice cdrom_mount_path ''game.xex'')
        ''game.xex'' default_xex,
      Some (X_STATUS_SUCCESS, example_world,
       [\<lparr>called_module = default_xex, field_at_entry = [], returned = 1\<rparr>,
        \<lparr>called_module = patched_xex, field_at_entry = [], returned = 0\<rparr>]))"
proof -
  have a: "LaunchPath_branch CHR ''/'' ''game.xex'' = StfsContainerBranch"
    by (simp add: LaunchPath_branch_def find_last_of_def npos_def substr_def)
  have b: "LaunchPath_branch bslash ''game.xex'' = StfsContainerBranch"
    by (simp add: LaunchPath_branch_def find_last_of_def npos_def substr_def bslash_def)
  have c: "LaunchPath_branch CHR ''/'' ''/games/game.xex'' = XexFileBranch"
    by (simp add: LaunchPath_branch_def find_last_of_def npos_def substr_def)
  have sep: "kPathSeparator example_env = CHR ''/''" by (simp add: example_env_def)
  have init: "\<And>d. device_Initialize example_env d" by (simp add: example_env_def)
  have reg: "\<And>d. fs_RegisterDevice example_env d" by (simp add: example_env_def)
  have run: "CompleteLaunch example_env ''game.xex'' default_xex example_world =
     Some (X_STATUS_SUCCESS, example_world,
       [\<lparr>called_module = default_xex, field_at_entry = [], returned = 1\<rparr>,
        \<lparr>called_module = patched_xex, field_at_entry = [], returned = 0\<rparr>])"
    by (simp add: CompleteLaunch_def launch_loop_step launch_loop_stop example_env_def
        example_world_def default_xex_def patched_xex_def bslash_def)
  have d: "LaunchPath example_env ''game.xex'' example_world =
     (successful_mount (StfsContainerDevice cdrom_mount_path ''game.xex'')
        ''game.xex'' default_xex,
      Some (X_STATUS_SUCCESS, example_world,
       [\<lparr>called_module = default_xex, field_at_entry = [], returned = 1\<rparr>,
        \<lparr>called_module = patched_xex, field_at_entry = [], returned = 0\<rparr>]))"
    unfolding LaunchPath_def sep a
    by (simp add: LaunchStfsContainer_def Let_def init reg run successful_mount_def)
  show ?thesis using a b c d by simp
qed

section \<open>Results about the three launch variants\<close>

text \<open>
  C8: when the device initializes and registers, the calls each variant has made by the
  time it hands over are the registration of that device, the binding of \<open>game:\<close> and of
  \<open>d:\<close> to the mount point of that device, and the call of \<open>CompleteLaunch\<close>, whose
  outcome is the variant's own: the bare-module variant passes \<open>game:\<close>, a backslash and
  the file's own name, the disc-image and container-image variants the fixed
  \<open>default.xex\<close> under \<open>game:\<close>. This holds whether the module-load chain succeeds,
  fails or never ends.
\<close>

theorem successful_mount_links_and_target:
  "(device_Initialize env (HostPathDevice harddisk_mount_path (find_base_path env path) True) \<and>
    fs_RegisterDevice env (HostPathDevice harddisk_mount_path (find_base_path env path) True)
    \<longrightarrow>
    fst (LaunchXexFile env path w) =
      successful_mount (HostPathDevice harddisk_mount_path (find_base_path env path) True)
        path (''game:'' @ [bslash] @ find_name_from_path env path) \<and>
    snd (LaunchXexFile env path w) =
      CompleteLaunch env path (''game:'' @ [bslash] @ find_name_from_path env path) w) \<and>
   (device_Initialize env (DiscImageDevice cdrom_mount_path path) \<and>
    fs_RegisterDevice env (DiscImageDevice cdrom_mount_path path)
    \<longrightarrow>
    fst (LaunchDiscImage env path w) =
      successful_mount (DiscImageDevice cdrom_mount_path path) path
        (''game:'' @ [bslash] @ ''default.xex'') \<and>
    snd (LaunchDiscImage env path w) =
      CompleteLaunch env path (''game:'' @ [bslash] @ ''default.xex'') w) \<and>
   (device_Initialize env (StfsContainerDevice cdrom_mount_path path) \<and>
    fs_RegisterDevice env (StfsContainerDevice cdrom_mount_path path)
    \<longrightarrow>
    fst (LaunchStfsContainer env path w) =
      successful_mount (StfsContainerDevice cdrom_mount_path path) path
        (''game:'' @ [bslash] @ ''default.xex'') \<and>
    snd (LaunchStfsContainer env path w) =
      CompleteLaunch env path (''game:'' @ [bslash] @ ''default.xex'') w)"
  by (simp add: LaunchXexFile_def LaunchDiscImage_def LaunchStfsContainer_def Let_def
      successful_mount_def to_string_def default_xex_def)

theorem successful_mount_links_and_target_witness:
  "LaunchXexFile example_env ''/games/foo.xex'' example_world =
     ([InitializeDevice (HostPathDevice harddisk_mount_path ''/games'' True) True,
       RegisterDevice (HostPathDevice harddisk_mount_path ''/games'' True) True,
       RegisterSymbolicLink ''game:'' harddisk_mount_path,
       RegisterSymbolicLink ''d:'' harddisk_mount_path,
       CallCompleteLaunch ''/games/foo.xex'' (''game:'' @ [bslash] @ ''foo.xex'')],
      Some (X_STATUS_SUCCESS, example_world,
        [\<lparr>called_module = foo_xex, field_at_entry = [], returned = 0\<rparr>])) \<and>
   LaunchXexFile failing_last_env ''/games/foo.xex'' example_world =
     ([InitializeDevice (HostPathDevice harddisk_mount_path ''/games'' True) True,
       RegisterDevice (HostPathDevice harddisk_mount_path ''/games'' True) True,
       RegisterSymbolicLink ''game:'' harddisk_mount_path,
       RegisterSymbolicLink ''d:'' harddisk_mount_path,
       CallCompleteLaunch ''/games/foo.xex'' (''game:'' @ [bslash] @ ''foo.xex'')],
      Some (X_STATUS_UNSUCCESSFUL, example_world,
        [\<lparr>called_module = foo_xex, field_at_entry = [], returned = 5\<rparr>])) \<and>
   LaunchDiscImage failing_last_env ''/games/game.iso'' example_world =
     ([InitializeDevice (DiscImageDevice cdrom_mount_path ''/games/game.iso'') True,
       RegisterDevice (DiscImageDevice cdrom_mount_path ''/games/game.iso'') True,
       RegisterSymbolicLink ''game:'' cdrom_mount_path,
       RegisterSymbolicLink ''d:'' cdrom_mount_path,
       CallCompleteLaunch ''/games/game.iso'' (''game:'' @ [bslash] @ ''default.xex'')],
      Some (X_STATUS_UNSUCCESSFUL, example_world,
        [\<lparr>called_module = default_xex, field_at_entry = [], returned = 0\<rparr>,
         \<lparr>called_module = patched_xex, field_at_entry = [], returned = 5\<rparr>])) \<and>
   LaunchStfsContainer looping_env ''/games/MyGame'' example_world =
     ([InitializeDevice (StfsContainerDevice cdrom_mount_path ''/games/MyGame'') True,
       RegisterDevice (StfsContainerDevice cdrom_mount_path ''/games/MyGame'') True,
       RegisterSymbolicLink ''game:'' cdrom_mount_path,
       RegisterSymbolicLink ''d:'' cdrom_mount_path,
       CallCompleteLaunch ''/games/MyGame'' (''game:'' @ [bslash] @ ''default.xex'')],
      None)"
proof -
  have xex_ok: "LaunchXexFile example_env ''/games/foo.xex'' example_world =
     ([InitializeDevice (HostPathDevice harddisk_mount_path ''/games'' True) True,
       RegisterDevice (HostPathDevice harddisk_mount_path ''/games'' True) True,
       RegisterSymbolicLink ''game:'' harddisk_mount_path,
       RegisterSymbolicLink ''d:'' harddisk_mount_path,
       CallCompleteLaunch ''/games/foo.xex'' (''game:'' @ [bslash] @ ''foo.xex'')],
      Some (X_STATUS_SUCCESS, example_world,
        [\<lparr>called_module = foo_xex, field_at_entry = [], returned = 0\<rparr>]))"
    using successful_mount_links_and_target [of example_env "''/games/foo.xex''" example_world]
    by (simp add: prod_eq_iff successful_mount_def CompleteLaunch_def launch_loop_step
        launch_loop_stop example_env_def example_world_def default_xex_def foo_xex_def
        name_after_sep_def base_before_sep_def)
  have xex_bad: "LaunchXexFile failing_last_env ''/games/foo.xex'' example_world =
     ([InitializeDevice (HostPathDevice harddisk_mount_path ''/games'' True) True,
       RegisterDevice (HostPathDevice harddisk_mount_path ''/games'' True) True,
       RegisterSymbolicLink ''game:'' harddisk_mount_path,
       RegisterSymbolicLink ''d:'' harddisk_mount_path,
       CallCompleteLaunch ''/games/foo.xex'' (''game:'' @ [bslash] @ ''foo.xex'')],
      Some (X_STATUS_UNSUCCESSFUL, example_world,
        [\<lparr>called_module = foo_xex, field_at_entry = [], returned = 5\<rparr>]))"
    using successful_mount_links_and_target
      [of failing_last_env "''/games/foo.xex''" example_world]
    by (simp add: prod_eq_iff successful_mount_def CompleteLaunch_def launch_loop_step
        launch_loop_stop failing_last_env_def example_env_def example_world_def
        default_xex_def foo_xex_def name_after_sep_def base_before_sep_def
        X_STATUS_SUCCESS_def X_STATUS_UNSUCCESSFUL_def)
  have disc_bad: "LaunchDiscImage failing_last_env ''/games/game.iso'' example_world =
     ([InitializeDevice (DiscImageDevice cdrom_mount_path ''/games/game.iso'') True,
       RegisterDevice (DiscImageDevice cdrom_mount_path ''/games/game.iso'') True,
       RegisterSymbolicLink ''game:'' cdrom_mount_path,
       RegisterSymbolicLink ''d:'' cdrom_mount_path,
       CallCompleteLaunch ''/games/game.iso'' (''game:'' @ [bslash] @ ''default.xex'')],
      Some (X_STATUS_UNSUCCESSFUL, example_world,
        [\<lparr>called_module = default_xex, field_at_entry = [], returned = 0\<rparr>,
         \<lparr>called_module = patched_xex, field_at_entry = [], returned = 5\<rparr>]))"
    using successful_mount_links_and_target
      [of failing_last_env "''/games/game.iso''" example_world]
    by (simp add: prod_eq_iff successful_mount_def CompleteLaunch_def launch_loop_step
        launch_loop_stop failing_last_env_def example_env_def example_world_def
        default_xex_def patched_xex_def
        X_STATUS_SUCCESS_def X_STATUS_UNSUCCESSFUL_def)
  have never: "CompleteLaunch looping_env ''/games/MyGame''
      (''game:'' @ [bslash] @ ''default.xex'') example_world = None"
    by (rule CompleteLaunch_looping_env) simp
  have stfs_loop: "LaunchStfsContainer looping_env ''/games/MyGame'' example_world =
     ([InitializeDevice (StfsContainerDevice cdrom_mount_path ''/games/MyGame'') True,
       RegisterDevice (StfsContainerDevice cdrom_mount_path ''/games/MyGame'') True,
       RegisterSymbolicLink ''game:'' cdrom_mount_path,
       RegisterSymbolicLink ''d:'' cdrom_mount_path,
       CallCompleteLaunch ''/games/MyGame'' (''game:'' @ [bslash] @ ''default.xex'')],
      None)"
    using successful_mount_links_and_target
      [of looping_env "''/games/MyGame''" example_world] never
    by (simp add: prod_eq_iff successful_mount_def looping_env_def example_env_def)
  show ?thesis using xex_ok xex_bad disc_bad stfs_loop by simp
qed

text \<open>
  C9: when the device fails to initialize or to register, every variant returns the
  "no such file" status without calling \<open>CompleteLaunch\<close> or \<open>LaunchModule\<close>; the
  bare-module variant only logs an error, the disc-image and container-image variants
  raise one fatal notice as their last call before returning.
\<close>

theorem mount_failure_status_and_notice:
  "(\<not> device_Initialize env (HostPathDevice harddisk_mount_path (find_base_path env path) True) \<or>
    \<not> fs_RegisterDevice env (HostPathDevice harddisk_mount_path (find_base_path env path) True)
    \<longrightarrow>
    (\<exists>evs. LaunchXexFile env path w = (evs, Some (X_STATUS_NO_SUCH_FILE, w, [])) \<and>
       launch_requests evs = [] \<and> fatal_notices evs = [] \<and> logged_errors evs \<noteq> [])) \<and>
   (\<not> device_Initialize env (DiscImageDevice cdrom_mount_path path) \<or>
    \<not> fs_RegisterDevice env (DiscImageDevice cdrom_mount_path path)
    \<longrightarrow>
    (\<exists>evs msg. LaunchDiscImage env path w = (evs, Some (X_STATUS_NO_SUCH_FILE, w, [])) \<and>
       launch_requests evs = [] \<and> fatal_notices evs = [msg] \<and> last evs = FatalError msg)) \<and>
   (\<not> device_Initialize env (StfsContainerDevice cdrom_mount_path path) \<or>
    \<not> fs_RegisterDevice env (StfsContainerDevice cdrom_mount_path path)
    \<longrightarrow>
    (\<exists>evs msg. LaunchStfsContainer env path w = (evs, Some (X_STATUS_NO_SUCH_FILE, w, [])) \<and>
       launch_requests evs = [] \<and> fatal_notices evs = [msg] \<and> last evs = FatalError msg))"
  by (simp add: LaunchXexFile_def LaunchDiscImage_def LaunchStfsContainer_def Let_def)

theorem mount_failure_status_and_notice_witness:
  "LaunchXexFile (example_env\<lparr>device_Initialize := \<lambda>d. False\<rparr>) ''/games/foo.xex'' example_world
     = ([InitializeDevice (HostPathDevice harddisk_mount_path ''/games'' True) False,
          LogError ''Unable to scan host path''],
        Some (X_STATUS_NO_SUCH_FILE, example_world, [])) \<and>
   LaunchDiscImage (example_env\<lparr>fs_RegisterDevice := \<lambda>d. False\<rparr>) ''/games/game.iso'' example_world
     = ([InitializeDevice (DiscImageDevice cdrom_mount_path ''/games/game.iso'') True,
          RegisterDevice (DiscImageDevice cdrom_mount_path ''/games/game.iso'') False,
          FatalError ''Unable to register disc image.''],
        Some (X_STATUS_NO_SUCH_FILE, example_world, [])) \<and>
   LaunchStfsContainer (example_env\<lparr>device_Initialize := \<lambda>d. False\<rparr>) ''/games/MyGame'' example_world
     = ([InitializeDevice (StfsContainerDevice cdrom_mount_path ''/games/MyGame'') False,
          FatalError ''Unable to mount STFS container; file not found or corrupt.''],
        Some (X_STATUS_NO_SUCH_FILE, example_world, []))"
  using mount_failure_status_and_notice
      [of "example_env\<lparr>device_Initialize := \<lambda>d. False\<rparr>" "''/games/foo.xex''" example_world]
    mount_failure_status_and_notice
      [of "example_env\<lparr>fs_RegisterDevice := \<lambda>d. False\<rparr>" "''/games/game.iso''" example_world]
    mount_failure_status_and_notice
      [of "example_env\<lparr>device_Initialize := \<lambda>d. False\<rparr>" "''/games/MyGame''" example_world]
  by (simp add: LaunchXexFile_def LaunchDiscImage_def LaunchStfsContainer_def Let_def
      example_env_def name_after_sep_def base_before_sep_def)

end
